theory Spec2Isabelle
  imports Main "HOL-Library.Multiset"
begin

section \<open>Values of the configuration and of the metadata\<close>

text \<open>
  The sorter reads its rules from YAML and receives metadata as keyword arguments, so the
  values it compares are Python objects. The model covers the scalars that YAML and the
  calling script produce: \<open>None\<close>, booleans, integers and strings. Floats, lists and
  dictionaries as field values are outside the model. Strings are lists of 8-bit
  characters; the character classes below are those of ASCII text.
\<close>

datatype pyval = PNone | PBool bool | PInt int | PStr string

text \<open>Python's \<open>==\<close> on these values: \<open>bool\<close> is a subclass of \<open>int\<close>, so \<open>True == 1\<close>;
  a string equals only a string; \<open>None\<close> equals only \<open>None\<close>.\<close>

fun py_eq :: "pyval \<Rightarrow> pyval \<Rightarrow> bool" where
  "py_eq PNone PNone = True"
| "py_eq (PBool a) (PBool b) = (a = b)"
| "py_eq (PBool a) (PInt j) = ((if a then 1 else 0) = j)"
| "py_eq (PInt i) (PBool b) = (i = (if b then 1 else 0))"
| "py_eq (PInt i) (PInt j) = (i = j)"
| "py_eq (PStr s) (PStr t) = (s = t)"
| "py_eq _ _ = False"

text \<open>Decimal digits of a natural number, most significant first, as \<open>str\<close> prints them.\<close>

definition digit_char :: "nat \<Rightarrow> char" where
  "digit_char d =
     (if d = 0 then CHR ''0'' else if d = 1 then CHR ''1'' else if d = 2 then CHR ''2''
      else if d = 3 then CHR ''3'' else if d = 4 then CHR ''4'' else if d = 5 then CHR ''5''
      else if d = 6 then CHR ''6'' else if d = 7 then CHR ''7'' else if d = 8 then CHR ''8''
      else CHR ''9'')"

fun str_nat :: "nat \<Rightarrow> string" where
  "str_nat n =
     (if n < 10 then [digit_char n] else str_nat (n div 10) @ [digit_char (n mod 10)])"

declare str_nat.simps [simp del]

text \<open>\<open>str\<close> of an integer. The interpreter's limit on the number of digits is not
  modelled.\<close>

definition str_int :: "int \<Rightarrow> string" where
  "str_int i = (if i < 0 then CHR ''-'' # str_nat (nat (- i)) else str_nat (nat i))"

text \<open>Python's \<open>str(v)\<close>, the text form of a value.\<close>

fun py_str :: "pyval \<Rightarrow> string" where
  "py_str PNone = ''None''"
| "py_str (PBool b) = (if b then ''True'' else ''False'')"
| "py_str (PInt i) = str_int i"
| "py_str (PStr s) = s"


section \<open>String operations of the Python library\<close>

definition startswith :: "string \<Rightarrow> string \<Rightarrow> bool" where
  "startswith s p = (take (length p) s = p)"

definition endswith :: "string \<Rightarrow> string \<Rightarrow> bool" where
  "endswith s p = (length p \<le> length s \<and> drop (length s - length p) s = p)"

text \<open>\<open>p in s\<close> for strings: \<open>p\<close> occurs in \<open>s\<close> as a contiguous run.\<close>

fun str_contains :: "string \<Rightarrow> string \<Rightarrow> bool" where
  "str_contains p [] = (p = [])"
| "str_contains p (c # cs) = (startswith (c # cs) p \<or> str_contains p cs)"

text \<open>\<open>str.upper\<close> on ASCII text.\<close>

definition upper_char :: "char \<Rightarrow> char" where
  "upper_char c =
     (case map_of (zip ''abcdefghijklmnopqrstuvwxyz'' ''ABCDEFGHIJKLMNOPQRSTUVWXYZ'') c of
        None \<Rightarrow> c
      | Some u \<Rightarrow> u)"

definition upper :: "string \<Rightarrow> string" where
  "upper s = map upper_char s"

section \<open>Errors\<close>

text \<open>
  The exceptions the sorter can raise. \<open>get_new_location\<close> raises \<open>ValueError\<close> with two
  different messages; the model keeps them apart and keeps the data each message is
  built from: the file name, and for the second the names of the matched rules.
  \<open>TypeError\<close> and \<open>AttributeError\<close> are the interpreter's own, raised when an
  operation meets a value of the wrong type; \<open>OverflowError\<close> and \<open>RecursionError\<close>
  come out of the regular-expression engine.
\<close>

datatype error =
    TypeError
  | AttributeError
  | OverflowError
  | RecursionError
  | FileNotFoundError string
  | ValueError_NoMatch string
  | ValueError_Multiple string "string list"

section \<open>Conditions\<close>

text \<open>
  A condition is a dictionary. The evaluator reads five keys of it, each of which may be
  missing: \<open>logic\<close> and \<open>rules\<close> of a group, \<open>field\<close>, \<open>operator\<close> and \<open>value\<close> of
  a leaf. Whether a dictionary is a group or a leaf is decided by the presence of the key
  \<open>logic\<close>, as in the source. The entry under \<open>rules\<close> is a list of conditions.
\<close>

datatype cond =
  Cond (c_logic: "pyval option") (c_rules: "cond list option")
       (c_field: "pyval option") (c_operator: "pyval option") (c_value: "pyval option")

text \<open>\<open>d.get(key)\<close>: a missing key reads as \<open>None\<close>.\<close>

definition dict_get :: "pyval option \<Rightarrow> pyval" where
  "dict_get e = (case e of None \<Rightarrow> PNone | Some v \<Rightarrow> v)"

type_synonym metadata = "string \<rightharpoonup> pyval"

text \<open>
  \<open>re.search(pattern, text)\<close> belongs to the Python library and is a parameter of the
  model. On a string pattern it returns, and \<open>Matched b\<close> says whether a match was
  found, or it raises: \<open>re.error\<close> for a pattern that does not compile, or another
  exception, of which the model has \<open>OverflowError\<close> (a repeat count beyond the
  engine's limit, as in \<open>a{4294967296}\<close>) and \<open>RecursionError\<close> (a pattern nested
  too deeply).
\<close>

datatype re_outcome = Matched bool | Re_error | Re_OverflowError | Re_RecursionError

type_synonym re_search = "string \<Rightarrow> string \<Rightarrow> re_outcome"

text \<open>
  The leaf part of \<open>_evaluate_condition\<close>. \<open>value in str(file_value)\<close>,
  \<open>str.startswith\<close>, \<open>str.endswith\<close> and \<open>re.search\<close> raise \<open>TypeError\<close> when the
  rule's value is not a string; only \<open>re.error\<close> is caught, any other exception of
  \<open>re.search\<close> leaves the evaluator.
\<close>

definition evaluate_leaf :: "re_search \<Rightarrow> cond \<Rightarrow> metadata \<Rightarrow> error + bool" where
  "evaluate_leaf re c md =
     (let field = dict_get (c_field c);
          operator = dict_get (c_operator c);
          val = dict_get (c_value c)
      in case field of
           PStr f \<Rightarrow>
             (case md f of
                None \<Rightarrow> Inr False
              | Some file_value \<Rightarrow>
                  if py_eq operator (PStr ''equals'') then Inr (py_eq file_value val)
                  else if py_eq operator (PStr ''not_equals'') then Inr (\<not> py_eq file_value val)
                  else if py_eq operator (PStr ''contains'') then
                    (case val of
                       PStr v \<Rightarrow> Inr (str_contains v (py_str file_value))
                     | _ \<Rightarrow> Inl TypeError)
                  else if py_eq operator (PStr ''starts_with'') then
                    (case val of
                       PStr v \<Rightarrow> Inr (startswith (py_str file_value) v)
                     | _ \<Rightarrow> Inl TypeError)
                  else if py_eq operator (PStr ''ends_with'') then
                    (case val of
                       PStr v \<Rightarrow> Inr (endswith (py_str file_value) v)
                     | _ \<Rightarrow> Inl TypeError)
                  else if py_eq operator (PStr ''regex'') then
                    (case val of
                       PStr v \<Rightarrow>
                         (case re v (py_str file_value) of
                            Matched b \<Rightarrow> Inr b
                          | Re_error \<Rightarrow> Inr False
                          | Re_OverflowError \<Rightarrow> Inl OverflowError
                          | Re_RecursionError \<Rightarrow> Inl RecursionError)
                     | _ \<Rightarrow> Inl TypeError)
                  else Inr False)
         | _ \<Rightarrow> Inr False)"

text \<open>
  \<open>_evaluate_condition\<close> and \<open>_evaluate_conditions\<close> (the leading underscore is not
  part of an Isabelle name). \<open>all_conditions\<close> and \<open>any_conditions\<close> are the
  generator expressions under \<open>all\<close> and \<open>any\<close>: they stop at the first child that
  decides the result, and an exception in a child they reach is the group's.
  \<open>.upper()\<close> on a \<open>logic\<close> entry that is not a string raises \<open>AttributeError\<close>.
\<close>

function (sequential) evaluate_condition :: "re_search \<Rightarrow> cond \<Rightarrow> metadata \<Rightarrow> error + bool"
  and evaluate_conditions :: "re_search \<Rightarrow> cond \<Rightarrow> metadata \<Rightarrow> error + bool"
  and all_conditions :: "re_search \<Rightarrow> cond list \<Rightarrow> metadata \<Rightarrow> error + bool"
  and any_conditions :: "re_search \<Rightarrow> cond list \<Rightarrow> metadata \<Rightarrow> error + bool"
where
  "evaluate_condition re c md =
     (if c_logic c \<noteq> None then evaluate_conditions re c md else evaluate_leaf re c md)"
| "evaluate_conditions re (Cond lg rs f op v) md =
     (case (case lg of None \<Rightarrow> PStr ''AND'' | Some l \<Rightarrow> l) of
        PStr s \<Rightarrow>
          (let logic = upper s;
               rules = (case rs of None \<Rightarrow> [] | Some l \<Rightarrow> l)
           in if rules = [] then Inr True
              else if logic = ''AND'' then all_conditions re rules md
              else if logic = ''OR'' then any_conditions re rules md
              else Inr False)
      | _ \<Rightarrow> Inl AttributeError)"
| "all_conditions re [] md = Inr True"
| "all_conditions re (r # rules) md =
     (case evaluate_condition re r md of
        Inl e \<Rightarrow> Inl e
      | Inr b \<Rightarrow> if b then all_conditions re rules md else Inr False)"
| "any_conditions re [] md = Inr False"
| "any_conditions re (r # rules) md =
     (case evaluate_condition re r md of
        Inl e \<Rightarrow> Inl e
      | Inr b \<Rightarrow> if b then Inr True else any_conditions re rules md)"
  by pat_completeness auto

termination
  by (relation "measure (case_sum
        (case_sum (\<lambda>(re, c, md). 2 * size c + 1) (\<lambda>(re, c, md). 2 * size c))
        (case_sum (\<lambda>(re, cs, md). 2 * size_list size cs + 1)
                  (\<lambda>(re, cs, md). 2 * size_list size cs + 1)))")
     (auto split: option.splits)








section \<open>Shorthand conditions\<close>

text \<open>
  The \<open>when\<close> entry of a rule maps a field name to a value or to a list of values. A
  Python dictionary keeps its entries in insertion order and has no key twice, so it is
  an association list here.
\<close>

datatype when_value = Scalar pyval | Values "pyval list"

type_synonym when_dict = "(string \<times> when_value) list"

definition equals_leaf :: "string \<Rightarrow> pyval \<Rightarrow> cond" where
  "equals_leaf field v = Cond None None (Some (PStr field)) (Some (PStr ''equals'')) (Some v)"

text \<open>The loop of \<open>_convert_when_to_conditions\<close> that fills the list \<open>rules\<close>.\<close>

fun when_rules :: "when_dict \<Rightarrow> cond list" where
  "when_rules [] = []"
| "when_rules ((field, Values vs) # rest) = map (equals_leaf field) vs @ when_rules rest"
| "when_rules ((field, Scalar v) # rest) = equals_leaf field v # when_rules rest"

definition convert_when_to_conditions :: "when_dict \<Rightarrow> cond" where
  "convert_when_to_conditions when =
     (let rules = when_rules when
      in if length rules = 1 then Cond (Some (PStr ''AND'')) (Some rules) None None None
         else
           let fields = map (\<lambda>r. dict_get (c_field r)) rules
           in if card (set fields) = 1
              then Cond (Some (PStr ''OR'')) (Some rules) None None None
              else Cond (Some (PStr ''AND'')) (Some rules) None None None)"

text \<open>
  The leaves an entry stands for, in the words of the specification: one equals-leaf for
  a scalar, one per listed value for a list, in the order of the list. \<open>same_field\<close>
  says that all leaves of a list test the same field.
\<close>

definition entry_leaves :: "string \<times> when_value \<Rightarrow> cond list" where
  "entry_leaves e =
     (case snd e of
        Scalar v \<Rightarrow> [equals_leaf (fst e) v]
      | Values vs \<Rightarrow> map (equals_leaf (fst e)) vs)"

definition same_field :: "cond list \<Rightarrow> bool" where
  "same_field leaves \<longleftrightarrow> (\<forall>l \<in> set leaves. \<forall>l' \<in> set leaves. c_field l = c_field l')"

section \<open>Template resolution\<close>

text \<open>The character classes \<open>\w\<close> of the regular expressions and of \<open>str.strip\<close>, on ASCII.\<close>

definition is_word_char :: "char \<Rightarrow> bool" where
  "is_word_char c \<longleftrightarrow>
     c \<in> set ''abcdefghijklmnopqrstuvwxyzABCDEFGHIJKLMNOPQRSTUVWXYZ0123456789_''"

definition is_space :: "char \<Rightarrow> bool" where
  "is_space c \<longleftrightarrow>
     c \<in> set [CHR '' '', CHR 0x09, CHR 0x0A, CHR 0x0B, CHR 0x0C, CHR 0x0D,
               CHR 0x1C, CHR 0x1D, CHR 0x1E, CHR 0x1F]"

definition strip :: "string \<Rightarrow> string" where
  "strip s = rev (dropWhile is_space (rev (dropWhile is_space s)))"

text \<open>
  \<open>re.findall(r'\$template\.(\w+)', s)\<close>: the names after each \<open>$template.\<close>, from left
  to right. A match takes the longest run of word characters and the scan goes on behind
  it.
\<close>

function findall_template :: "string \<Rightarrow> string list" where
  "findall_template [] = []"
| "findall_template (c # cs) =
     (let name = takeWhile is_word_char (drop (length ''$template.'') (c # cs))
      in if startswith (c # cs) ''$template.'' \<and> name \<noteq> []
         then name # findall_template (drop (length ''$template.'' + length name) (c # cs))
         else findall_template cs)"
  by pat_completeness auto

termination
  by (relation "measure length") auto

text \<open>
  \<open>s.replace(old, new)\<close>: every occurrence of \<open>old\<close>, found from left to right without
  overlap, becomes \<open>new\<close>. With an empty \<open>old\<close> Python puts \<open>new\<close> around every
  character.
\<close>

function str_replace :: "string \<Rightarrow> string \<Rightarrow> string \<Rightarrow> string" where
  "str_replace old new [] = (if old = [] then new else [])"
| "str_replace old new (c # cs) =
     (if old = [] then new @ c # str_replace old new cs
      else if startswith (c # cs) old
           then new @ str_replace old new (drop (length old) (c # cs))
           else c # str_replace old new cs)"
  by pat_completeness auto

termination
  by (relation "measure (\<lambda>(old, new, s). length s)") auto

text \<open>\<open>s.split(sep)\<close> for a separator of one character.\<close>

function split_on :: "char \<Rightarrow> string \<Rightarrow> string list" where
  "split_on sep s =
     (case dropWhile (\<lambda>x. x \<noteq> sep) s of
        [] \<Rightarrow> [s]
      | _ # rest \<Rightarrow> takeWhile (\<lambda>x. x \<noteq> sep) s # split_on sep rest)"
  by pat_completeness auto

termination
proof (relation "measure (\<lambda>(sep, s). length s)")
  fix sep :: char and s x rest
  assume "dropWhile (\<lambda>x. x \<noteq> sep) s = x # rest"
  then have "length (x # rest) \<le> length s"
    using length_dropWhile_le [of "\<lambda>x. x \<noteq> sep" s] by simp
  then show "((sep, rest), (sep, s)) \<in> measure (\<lambda>(sep, s). length s)"
    by simp
qed simp

declare split_on.simps [simp del]

text \<open>
  The test for a quoted literal and the slice \<open>option[1:-1]\<close>, which is empty for a
  string of fewer than two characters.
\<close>

definition is_quoted :: "string \<Rightarrow> bool" where
  "is_quoted option \<longleftrightarrow>
     (startswith option [CHR 0x27] \<and> endswith option [CHR 0x27]) \<or>
     (startswith option [CHR 0x22] \<and> endswith option [CHR 0x22])"

definition unquote :: "string \<Rightarrow> string" where
  "unquote option = butlast (tl option)"

text \<open>The loop over the options of a placeholder, and the empty string behind it.\<close>

fun resolve_options :: "metadata \<Rightarrow> string list \<Rightarrow> string" where
  "resolve_options md [] = []"
| "resolve_options md (option # options) =
     (if is_quoted option then unquote option
      else
        case md option of
          Some v \<Rightarrow>
            if option \<noteq> ''filename'' \<and> v \<noteq> PNone \<and> strip (py_str v) \<noteq> []
            then py_str v
            else resolve_options md options
        | None \<Rightarrow> resolve_options md options)"



text \<open>
  The inner function \<open>replace_with_fallback\<close>, applied to the text between the braces.
  \<open>Path(original_filename).stem\<close> and \<open>.suffix\<close> belong to the Python library and are
  parameters.
\<close>

definition replace_with_fallback ::
  "(string \<Rightarrow> string) \<Rightarrow> (string \<Rightarrow> string) \<Rightarrow> metadata \<Rightarrow> string \<Rightarrow> string \<Rightarrow> string" where
  "replace_with_fallback stem suffix md original_filename placeholder_content =
     (if placeholder_content = ''original'' then stem original_filename
      else if placeholder_content = ''ext'' then suffix original_filename
      else resolve_options md (map strip (split_on CHR ''|'' placeholder_content)))"

text \<open>
  \<open>re.sub(r'\{([^}]+)\}', f, s)\<close>: an opening brace, at least one character other
  than a closing brace, and the next closing brace form a match, which \<open>f\<close> of the text
  between the braces replaces. Where no match starts the character is kept.
\<close>

function sub_placeholders :: "(string \<Rightarrow> string) \<Rightarrow> string \<Rightarrow> string" where
  "sub_placeholders f [] = []"
| "sub_placeholders f (c # cs) =
     (let content = takeWhile (\<lambda>x. x \<noteq> CHR ''}'') cs;
          rest = dropWhile (\<lambda>x. x \<noteq> CHR ''}'') cs
      in if c = CHR ''{'' \<and> content \<noteq> [] \<and> rest \<noteq> []
         then f content @ sub_placeholders f (tl rest)
         else c # sub_placeholders f cs)"
  by pat_completeness auto

termination
proof (relation "measure (\<lambda>(f, s). length s)")
  fix f :: "string \<Rightarrow> string" and c :: char and cs content rest
  assume "rest = dropWhile (\<lambda>x. x \<noteq> CHR ''}'') cs"
  then have "length (tl rest) \<le> length cs"
    using length_dropWhile_le [of "\<lambda>x. x \<noteq> CHR ''}''" cs] by simp
  then show "((f, tl rest), (f, c # cs)) \<in> measure (\<lambda>(f, s). length s)"
    by simp
qed simp_all

text \<open>
  The first loop of \<open>_replace_placeholders\<close>: for each name found in the template, in
  order, a name of the table is replaced in the current result, any other is passed over.
\<close>

fun expand_templates :: "(string \<rightharpoonup> string) \<Rightarrow> string list \<Rightarrow> string \<Rightarrow> string" where
  "expand_templates templates [] result = result"
| "expand_templates templates (template_name # matches) result =
     (case templates template_name of
        Some template_value \<Rightarrow>
          expand_templates templates matches
            (str_replace (''$template.'' @ template_name) template_value result)
      | None \<Rightarrow> expand_templates templates matches result)"

definition replace_placeholders ::
  "(string \<Rightarrow> string) \<Rightarrow> (string \<Rightarrow> string) \<Rightarrow> (string \<rightharpoonup> string) \<Rightarrow>
   string \<Rightarrow> metadata \<Rightarrow> string \<Rightarrow> string" where
  "replace_placeholders stem suffix templates template md original_filename =
     (let result = expand_templates templates (findall_template template) template
      in sub_placeholders (replace_with_fallback stem suffix md original_filename) result)"


section \<open>Rules and the sorter\<close>

text \<open>
  A rule is a dictionary with the optional keys \<open>name\<close>, \<open>conditions\<close>, \<open>path\<close> and
  \<open>filename\<close>; names and templates are strings. A \<open>FileSorter\<close> holds the template
  table, the rule list of its configuration (which may be missing) and the base output
  directory.
\<close>

record rule =
  r_name :: "string option"
  r_conditions :: "cond option"
  r_path :: "string option"
  r_filename :: "string option"

record file_sorter =
  templates :: "string \<rightharpoonup> string"
  config_rules :: "rule list option"
  base_output_dir :: string

text \<open>
  What the sorter takes from outside this repository: the file system
  (\<open>os.path.exists\<close>), the path functions of \<open>os.path\<close> and \<open>pathlib\<close>, which depend on
  the platform, the regular-expression engine and the two sanitizers of \<open>pathvalidate\<close>.
\<close>

record platform =
  path_exists :: "string \<Rightarrow> bool"
  path_basename :: "string \<Rightarrow> string"
  path_join :: "string \<Rightarrow> string \<Rightarrow> string"
  path_stem :: "string \<Rightarrow> string"
  path_suffix :: "string \<Rightarrow> string"
  regex_search :: re_search
  sanitize_filepath :: "string \<Rightarrow> string"
  sanitize_filename :: "string \<Rightarrow> string"

text \<open>\<open>rule.get("conditions", {})\<close>: the default is the empty dictionary.\<close>

definition rule_conditions :: "rule \<Rightarrow> cond" where
  "rule_conditions r =
     (case r_conditions r of None \<Rightarrow> Cond None None None None None | Some c \<Rightarrow> c)"

definition rule_name :: "rule \<Rightarrow> string" where
  "rule_name r = (case r_name r of None \<Rightarrow> ''Unnamed'' | Some n \<Rightarrow> n)"

text \<open>The loop of \<open>_find_all_matching_rules\<close>; an exception of the evaluator ends it.\<close>

fun matching_rules_of :: "re_search \<Rightarrow> rule list \<Rightarrow> metadata \<Rightarrow> error + rule list" where
  "matching_rules_of re [] md = Inr []"
| "matching_rules_of re (r # rs) md =
     (case evaluate_conditions re (rule_conditions r) md of
        Inl e \<Rightarrow> Inl e
      | Inr b \<Rightarrow>
          (case matching_rules_of re rs md of
             Inl e \<Rightarrow> Inl e
           | Inr ms \<Rightarrow> Inr (if b then r # ms else ms)))"

definition find_all_matching_rules ::
  "platform \<Rightarrow> file_sorter \<Rightarrow> metadata \<Rightarrow> error + rule list" where
  "find_all_matching_rules os self md =
     matching_rules_of (regex_search os)
       (case config_rules self of None \<Rightarrow> [] | Some rs \<Rightarrow> rs) md"

text \<open>
  The metadata record of \<open>get_new_location\<close>: the dictionary \<open>{"filename": ...}\<close>,
  updated with the keyword arguments.
\<close>

definition file_metadata :: "string \<Rightarrow> metadata \<Rightarrow> metadata" where
  "file_metadata original_filename md = [''filename'' \<mapsto> PStr original_filename] ++ md"

definition get_new_location ::
  "platform \<Rightarrow> file_sorter \<Rightarrow> string \<Rightarrow> metadata \<Rightarrow> error + (string \<times> string \<times> string)" where
  "get_new_location os self original_filepath md =
     (if \<not> path_exists os original_filepath then Inl (FileNotFoundError original_filepath)
      else
        let original_filename = path_basename os original_filepath;
            fmd = file_metadata original_filename md
        in case find_all_matching_rules os self fmd of
             Inl e \<Rightarrow> Inl e
           | Inr matching_rules \<Rightarrow>
               if length matching_rules = 0 then Inl (ValueError_NoMatch original_filename)
               else if length matching_rules > 1
               then Inl (ValueError_Multiple original_filename (map rule_name matching_rules))
               else
                 let r = hd matching_rules;
                     path_template = (case r_path r of None \<Rightarrow> ''.'' | Some t \<Rightarrow> t);
                     filename_template =
                       (case r_filename r of None \<Rightarrow> ''{original}'' | Some t \<Rightarrow> t);
                     relative_path =
                       replace_placeholders (path_stem os) (path_suffix os) (templates self)
                         path_template fmd original_filename;
                     new_filename =
                       replace_placeholders (path_stem os) (path_suffix os) (templates self)
                         filename_template fmd original_filename;
                     absolute_path = path_join os (base_output_dir self) relative_path
                 in Inr (sanitize_filepath os absolute_path,
                         sanitize_filename os new_filename,
                         rule_name r))"

text \<open>
  Two notions of the specification's account of planning: a rule is satisfied when the
  evaluation of its conditions returns true, and the location a rule resolves to is the
  triple \<open>get_new_location\<close> returns for it.
\<close>

definition satisfied :: "re_search \<Rightarrow> metadata \<Rightarrow> rule \<Rightarrow> bool" where
  "satisfied re md r \<longleftrightarrow> evaluate_conditions re (rule_conditions r) md = Inr True"

definition resolved_location ::
  "platform \<Rightarrow> file_sorter \<Rightarrow> string \<Rightarrow> metadata \<Rightarrow> rule \<Rightarrow> string \<times> string \<times> string" where
  "resolved_location os self original_filepath md r =
     (let original_filename = path_basename os original_filepath;
          fmd = file_metadata original_filename md
      in (sanitize_filepath os (path_join os (base_output_dir self)
            (replace_placeholders (path_stem os) (path_suffix os) (templates self)
               (case r_path r of None \<Rightarrow> ''.'' | Some t \<Rightarrow> t) fmd original_filename)),
          sanitize_filename os
            (replace_placeholders (path_stem os) (path_suffix os) (templates self)
               (case r_filename r of None \<Rightarrow> ''{original}'' | Some t \<Rightarrow> t) fmd original_filename),
          rule_name r))"

text \<open>
  A platform for evaluating examples: POSIX path functions, a file system that holds the
  one file \<open>/in/report.final.pdf\<close>, and sanitizers that change nothing. In place of the
  regular-expression engine it has substring search, which refuses the pattern
  \<open>[invalid(\<close> with \<open>re.error\<close> and the pattern \<open>a{4294967296}\<close> with
  \<open>OverflowError\<close>, as the engine does.
\<close>

definition literal_search :: re_search where
  "literal_search p s = (if p = ''[invalid('' then Re_error else Matched (str_contains p s))"

definition example_search :: re_search where
  "example_search p s = (if p = ''a{4294967296}'' then Re_OverflowError else literal_search p s)"

definition posix_basename :: "string \<Rightarrow> string" where
  "posix_basename p = rev (takeWhile (\<lambda>c. c \<noteq> CHR ''/'') (rev p))"

definition posix_join :: "string \<Rightarrow> string \<Rightarrow> string" where
  "posix_join a b =
     (if startswith b ''/'' then b
      else if a = [] \<or> endswith a ''/'' then a @ b
      else a @ ''/'' @ b)"

definition posix_suffix :: "string \<Rightarrow> string" where
  "posix_suffix name =
     (let tail = rev (takeWhile (\<lambda>c. c \<noteq> CHR ''.'') (rev name))
      in if CHR ''.'' \<in> set name \<and> tail \<noteq> [] \<and> length tail + 1 < length name
         then CHR ''.'' # tail else [])"

definition posix_stem :: "string \<Rightarrow> string" where
  "posix_stem name = take (length name - length (posix_suffix name)) name"

definition example_platform :: platform where
  "example_platform =
     \<lparr> path_exists = (\<lambda>p. p = ''/in/report.final.pdf''),
       path_basename = posix_basename,
       path_join = posix_join,
       path_stem = posix_stem,
       path_suffix = posix_suffix,
       regex_search = example_search,
       sanitize_filepath = (\<lambda>s. s),
       sanitize_filename = (\<lambda>s. s) \<rparr>"

section \<open>Example configurations\<close>

text \<open>A rule whose leaf asks \<open>contains\<close> with the number 2024, as YAML reads \<open>value: 2024\<close>.\<close>

definition year_rule :: rule where
  "year_rule =
     \<lparr> r_name = Some ''Year'',
       r_conditions = Some (Cond (Some (PStr ''AND''))
         (Some [Cond None None (Some (PStr ''title'')) (Some (PStr ''contains''))
                  (Some (PInt 2024))])
         None None None),
       r_path = None, r_filename = None \<rparr>"

definition year_sorter :: file_sorter where
  "year_sorter =
     \<lparr> templates = Map.empty, config_rules = Some [year_rule], base_output_dir = ''/out'' \<rparr>"


text \<open>
  The rule of the specification's end-to-end example, a rule without conditions, which
  matches every file, and a rule for another postbox type.
\<close>

definition dividends_rule :: rule where
  "dividends_rule =
     \<lparr> r_name = Some ''Dividends'',
       r_conditions = Some (convert_when_to_conditions
         [(''postbox_type'', Values [PStr ''A'', PStr ''B''])]),
       r_path = Some ''Income/{event_title}'',
       r_filename = Some ''{event_title}.pdf'' \<rparr>"

definition fallback_rule :: rule where
  "fallback_rule = \<lparr> r_name = None, r_conditions = None, r_path = None, r_filename = None \<rparr>"

definition letters_rule :: rule where
  "letters_rule =
     \<lparr> r_name = Some ''Letters'',
       r_conditions = Some (convert_when_to_conditions [(''postbox_type'', Scalar (PStr ''C''))]),
       r_path = Some ''Letters'',
       r_filename = None \<rparr>"

definition sorter_with :: "rule list \<Rightarrow> file_sorter" where
  "sorter_with rs = \<lparr> templates = Map.empty, config_rules = Some rs, base_output_dir = ''/out'' \<rparr>"

definition apple_metadata :: metadata where
  "apple_metadata = [''postbox_type'' \<mapsto> PStr ''B'', ''event_title'' \<mapsto> PStr ''Apple'']"

text \<open>The metadata of a file with a title, for the rule on the year.\<close>

definition report_metadata :: metadata where
  "report_metadata =
     [''postbox_type'' \<mapsto> PStr ''B'', ''event_title'' \<mapsto> PStr ''Apple'',
      ''title'' \<mapsto> PStr ''Report 2024'']"

section \<open>Auxiliary facts\<close>

lemma py_eq_PStr [simp]: "py_eq x (PStr s) \<longleftrightarrow> x = PStr s"
  by (cases x) auto

lemma posix_basename_report: "posix_basename ''/in/report.final.pdf'' = ''report.final.pdf''"
  by (simp add: posix_basename_def)

lemmas example_simps =
  example_platform_def get_new_location_def find_all_matching_rules_def rule_conditions_def
  rule_name_def evaluate_leaf_def dict_get_def upper_def upper_char_def file_metadata_def
  replace_placeholders_def replace_with_fallback_def startswith_def endswith_def
  posix_join_def posix_stem_def posix_suffix_def posix_basename_report
  convert_when_to_conditions_def equals_leaf_def sorter_with_def apple_metadata_def
  dividends_rule_def fallback_rule_def letters_rule_def satisfied_def resolved_location_def
  Let_def split_on.simps strip_def is_space_def is_quoted_def unquote_def
  example_search_def literal_search_def report_metadata_def year_sorter_def year_rule_def

lemma when_rules_concat: "when_rules when = concat (map entry_leaves when)"
  by (induction "when" rule: when_rules.induct) (simp_all add: entry_leaves_def)

lemma when_rules_field:
  "l \<in> set (when_rules when) \<Longrightarrow> \<exists>f. c_field l = Some (PStr f)"
  by (induction "when" rule: when_rules.induct) (auto simp: equals_leaf_def)

lemma card_set_one:
  "card (set xs) = 1 \<longleftrightarrow> xs \<noteq> [] \<and> (\<forall>x \<in> set xs. \<forall>y \<in> set xs. x = y)"
proof
  assume "card (set xs) = 1"
  then obtain a where "set xs = {a}"
    by (auto simp: card_1_singleton_iff)
  then show "xs \<noteq> [] \<and> (\<forall>x \<in> set xs. \<forall>y \<in> set xs. x = y)"
    by auto
next
  assume a: "xs \<noteq> [] \<and> (\<forall>x \<in> set xs. \<forall>y \<in> set xs. x = y)"
  then obtain x where "x \<in> set xs"
    by (cases xs) auto
  with a have "set xs = {x}"
    by auto
  then show "card (set xs) = 1"
    by simp
qed

lemma when_fields_same:
  "(\<forall>x \<in> set (map (\<lambda>r. dict_get (c_field r)) (when_rules when)).
      \<forall>y \<in> set (map (\<lambda>r. dict_get (c_field r)) (when_rules when)). x = y)
   \<longleftrightarrow> same_field (when_rules when)"
proof -
  have "dict_get (c_field l) = dict_get (c_field l') \<longleftrightarrow> c_field l = c_field l'"
    if "l \<in> set (when_rules when)" and "l' \<in> set (when_rules when)" for l l'
    using when_rules_field [OF that(1)] when_rules_field [OF that(2)]
    by (auto simp: dict_get_def)
  then show ?thesis
    by (auto simp: same_field_def)
qed

lemma upper_examples:
  "upper ''and'' = ''AND''" "upper ''And'' = ''AND''" "upper ''AND'' = ''AND''"
  "upper ''or'' = ''OR''" "upper ''Or'' = ''OR''" "upper ''OR'' = ''OR''"
  by (simp_all add: upper_def upper_char_def)






lemma startswith_iff: "startswith s p \<longleftrightarrow> (\<exists>post. s = p @ post)"
proof
  assume "startswith s p"
  then have "s = p @ drop (length p) s"
    unfolding startswith_def by (metis append_take_drop_id)
  then show "\<exists>post. s = p @ post" ..
next
  assume "\<exists>post. s = p @ post"
  then show "startswith s p"
    by (auto simp: startswith_def)
qed

lemma endswith_iff: "endswith s p \<longleftrightarrow> (\<exists>pre. s = pre @ p)"
proof
  assume "endswith s p"
  then have "s = take (length s - length p) s @ p"
    unfolding endswith_def by (metis append_take_drop_id)
  then show "\<exists>pre. s = pre @ p" ..
next
  assume "\<exists>pre. s = pre @ p"
  then show "endswith s p"
    by (auto simp: endswith_def)
qed

lemma str_contains_iff: "str_contains p s \<longleftrightarrow> (\<exists>pre post. s = pre @ p @ post)"
proof (induction s)
  case Nil
  show ?case by auto
next
  case (Cons c cs)
  show ?case
  proof
    assume "str_contains p (c # cs)"
    then consider "startswith (c # cs) p" | "str_contains p cs" by auto
    then show "\<exists>pre post. c # cs = pre @ p @ post"
    proof cases
      case 1
      then obtain post where "c # cs = [] @ p @ post"
        by (auto simp: startswith_iff)
      then show ?thesis by blast
    next
      case 2
      with Cons obtain pre post where "cs = pre @ p @ post" by auto
      then have "c # cs = (c # pre) @ p @ post" by simp
      then show ?thesis by blast
    qed
  next
    assume "\<exists>pre post. c # cs = pre @ p @ post"
    then obtain pre post where e: "c # cs = pre @ p @ post" by blast
    show "str_contains p (c # cs)"
    proof (cases pre)
      case Nil
      with e have "startswith (c # cs) p"
        unfolding startswith_iff by auto
      then show ?thesis by simp
    next
      case (Cons a pre')
      with e have "cs = pre' @ p @ post" by simp
      with Cons.IH show ?thesis by auto
    qed
  qed
qed

lemma matching_rules_of_Inr_iff:
  "matching_rules_of re rs md = Inr ms \<longleftrightarrow>
     (\<forall>r \<in> set rs. \<exists>b. evaluate_conditions re (rule_conditions r) md = Inr b) \<and>
     ms = filter (satisfied re md) rs"
proof (induction rs arbitrary: ms)
  case Nil
  show ?case by auto
next
  case (Cons r rs)
  show ?case
  proof (cases "evaluate_conditions re (rule_conditions r) md")
    case (Inl e)
    then show ?thesis by auto
  next
    case (Inr b)
    show ?thesis
    proof (cases "matching_rules_of re rs md")
      case (Inl e)
      with Inr Cons.IH show ?thesis by auto
    next
      case ms': (Inr ms')
      with Cons.IH [of ms'] have "(\<forall>r \<in> set rs. \<exists>b. evaluate_conditions re (rule_conditions r) md = Inr b)"
        and "ms' = filter (satisfied re md) rs" by auto
      moreover have "satisfied re md r \<longleftrightarrow> b"
        using Inr by (simp add: satisfied_def)
      ultimately show ?thesis
        using Inr ms' by auto
    qed
  qed
qed




lemma get_new_location_cases:
  assumes "path_exists os p"
    and "find_all_matching_rules os self (file_metadata (path_basename os p) md) = Inr ms"
  shows "get_new_location os self p md =
     (case ms of
        [] \<Rightarrow> Inl (ValueError_NoMatch (path_basename os p))
      | [r] \<Rightarrow> Inr (resolved_location os self p md r)
      | _ \<Rightarrow> Inl (ValueError_Multiple (path_basename os p) (map rule_name ms)))"
  using assms
  by (auto simp: get_new_location_def Let_def resolved_location_def split: list.splits)






section \<open>The existence check\<close>

text \<open>
  Claim C10. \<open>get_new_location\<close> raises \<open>FileNotFoundError\<close> whenever the original path
  does not name an existing file, whatever the rules and the metadata are: the check
  comes before rule matching and template resolution, so not even a rule whose
  evaluation would raise is looked at.
\<close>

theorem get_new_location_file_not_found:
  "\<not> path_exists os original_filepath \<Longrightarrow>
   get_new_location os self original_filepath md = Inl (FileNotFoundError original_filepath)"
  by (simp add: get_new_location_def)

theorem get_new_location_file_not_found_witness:
  "\<not> path_exists example_platform ''/in/missing.pdf'' \<and>
   get_new_location example_platform year_sorter ''/in/missing.pdf''
     [''title'' \<mapsto> PStr ''Report 2024''] = Inl (FileNotFoundError ''/in/missing.pdf'')"
  using get_new_location_file_not_found
    [of example_platform "''/in/missing.pdf''" year_sorter "[''title'' \<mapsto> PStr ''Report 2024'']"]
  by (simp add: example_platform_def)

section \<open>The injected field \<open>filename\<close>\<close>




section \<open>Shorthand compilation\<close>

text \<open>
  Claim C4, as stated: when every generated leaf targets the same single field the leaves
  are combined in an OR group. It fails for a shorthand that yields exactly one leaf:
  the source returns an AND group for a single leaf before it compares the fields.
\<close>

theorem convert_when_single_leaf_counterexample:
  "convert_when_to_conditions [(''postbox_type'', Scalar (PStr ''INCOME''))] =
     Cond (Some (PStr ''AND'')) (Some [equals_leaf ''postbox_type'' (PStr ''INCOME'')])
       None None None \<and>
   same_field [equals_leaf ''postbox_type'' (PStr ''INCOME'')] \<and>
   convert_when_to_conditions [(''postbox_type'', Scalar (PStr ''INCOME''))] \<noteq>
     Cond (Some (PStr ''OR'')) (Some [equals_leaf ''postbox_type'' (PStr ''INCOME'')])
       None None None"
  by (simp add: convert_when_to_conditions_def same_field_def)

text \<open>
  Claim C4, amended: compilation is a function of the shorthand with no error outcome;
  each scalar entry yields one equals-leaf and each list entry one equals-leaf per
  listed value, in input order; the leaves are combined in an OR group when there are at
  least two of them and all target the same field, and in an AND group otherwise, which
  includes a single leaf and no leaf at all.
\<close>

theorem convert_when_to_conditions_shape:
  "convert_when_to_conditions when =
     (let leaves = concat (map entry_leaves when)
      in Cond (Some (PStr (if 2 \<le> length leaves \<and> same_field leaves then ''OR'' else ''AND'')))
              (Some leaves) None None None)"
proof -
  let ?rs = "when_rules when"
  have "card (set (map (\<lambda>r. dict_get (c_field r)) ?rs)) = 1 \<longleftrightarrow> ?rs \<noteq> [] \<and> same_field ?rs"
    using when_fields_same [of "when"] by (simp only: card_set_one) simp
  moreover have "length ?rs \<noteq> 1 \<and> ?rs \<noteq> [] \<longleftrightarrow> 2 \<le> length ?rs"
    by (cases ?rs) (auto simp: Suc_le_eq)
  moreover have "length ?rs = 1 \<Longrightarrow> \<not> 2 \<le> length ?rs"
    by simp
  ultimately show ?thesis
    unfolding convert_when_to_conditions_def Let_def when_rules_concat [symmetric]
    by auto
qed

theorem convert_when_to_conditions_shape_witness:
  "convert_when_to_conditions [(''t'', Values [PStr ''A'', PStr ''B''])] =
     Cond (Some (PStr ''OR'')) (Some [equals_leaf ''t'' (PStr ''A''), equals_leaf ''t'' (PStr ''B'')])
       None None None \<and>
   convert_when_to_conditions [(''t'', Scalar (PStr ''A'')), (''u'', Scalar (PInt 1))] =
     Cond (Some (PStr ''AND'')) (Some [equals_leaf ''t'' (PStr ''A''), equals_leaf ''u'' (PInt 1)])
       None None None"
  using convert_when_to_conditions_shape [of "[(''t'', Values [PStr ''A'', PStr ''B''])]"]
    convert_when_to_conditions_shape [of "[(''t'', Scalar (PStr ''A'')), (''u'', Scalar (PInt 1))]"]
  by (simp add: entry_leaves_def same_field_def equals_leaf_def)

section \<open>Dispatch on the logic of a group\<close>

text \<open>
  Claim C9. For a group with a non-empty rules list, a missing \<open>logic\<close> key is treated
  as AND; the spellings \<open>and\<close>, \<open>And\<close>, \<open>AND\<close> select the conjunction of the children
  and \<open>or\<close>, \<open>Or\<close>, \<open>OR\<close> their disjunction, as does every string that uppercases
  to \<open>AND\<close> or \<open>OR\<close>; a group whose logic string uppercases to anything else
  evaluates to false.
\<close>

theorem evaluate_conditions_logic:
  assumes "rules \<noteq> []"
  shows "evaluate_conditions re (Cond None (Some rules) f op v) md =
      evaluate_conditions re (Cond (Some (PStr ''AND'')) (Some rules) f op v) md \<and>
    (\<forall>s \<in> {''and'', ''And'', ''AND''}.
       evaluate_conditions re (Cond (Some (PStr s)) (Some rules) f op v) md
         = all_conditions re rules md) \<and>
    (\<forall>s \<in> {''or'', ''Or'', ''OR''}.
       evaluate_conditions re (Cond (Some (PStr s)) (Some rules) f op v) md
         = any_conditions re rules md) \<and>
    (\<forall>s. evaluate_conditions re (Cond (Some (PStr s)) (Some rules) f op v) md =
       (if upper s = ''AND'' then all_conditions re rules md
        else if upper s = ''OR'' then any_conditions re rules md
        else Inr False))"
  using assms by (simp add: upper_examples)

theorem evaluate_conditions_logic_witness:
  "[equals_leaf ''t'' (PStr ''A'')] \<noteq> [] \<and>
   evaluate_conditions (regex_search example_platform)
     (Cond None (Some [equals_leaf ''t'' (PStr ''A'')]) None None None)
     [''t'' \<mapsto> PStr ''A''] = Inr True \<and>
   evaluate_conditions (regex_search example_platform)
     (Cond (Some (PStr ''And'')) (Some [equals_leaf ''t'' (PStr ''A'')]) None None None)
     [''t'' \<mapsto> PStr ''A''] = Inr True \<and>
   evaluate_conditions (regex_search example_platform)
     (Cond (Some (PStr ''or'')) (Some [equals_leaf ''t'' (PStr ''A'')]) None None None)
     [''t'' \<mapsto> PStr ''A''] = Inr True \<and>
   evaluate_conditions (regex_search example_platform)
     (Cond (Some (PStr ''XOR'')) (Some [equals_leaf ''t'' (PStr ''A'')]) None None None)
     [''t'' \<mapsto> PStr ''A''] = Inr False"
  using evaluate_conditions_logic
    [of "[equals_leaf ''t'' (PStr ''A'')]" "regex_search example_platform" None None None "[''t'' \<mapsto> PStr ''A'']"]
  by (simp add: equals_leaf_def evaluate_leaf_def dict_get_def upper_def upper_char_def)

section \<open>Totality of evaluation and resolution\<close>




section \<open>The comparison operators\<close>

text \<open>
  Claim C2, as stated: \<open>equals\<close> coerces to text when the types differ, so that the
  number 5 equals the string \<open>5\<close>, and the text operators use the text form of the
  rule's value. It fails: \<open>file_value == value\<close> is Python's equality, under which a
  number and a string are never equal although their text forms agree, and a rule value
  that is not a string is not coerced but makes the text operators raise.
\<close>

theorem equals_no_coercion_counterexample:
  "py_str (PInt 5) = py_str (PStr ''5'') \<and>
   evaluate_condition (regex_search example_platform)
     (Cond None None (Some (PStr ''n'')) (Some (PStr ''equals'')) (Some (PStr ''5'')))
     [''n'' \<mapsto> PInt 5] = Inr False \<and>
   evaluate_condition (regex_search example_platform)
     (Cond None None (Some (PStr ''n'')) (Some (PStr ''equals'')) (Some (PInt 5)))
     [''n'' \<mapsto> PStr ''5''] = Inr False \<and>
   evaluate_condition (regex_search example_platform)
     (Cond None None (Some (PStr ''n'')) (Some (PStr ''contains'')) (Some (PInt 5)))
     [''n'' \<mapsto> PStr ''5''] = Inl TypeError"
  by (simp add: example_simps str_int_def str_nat.simps digit_char_def)

text \<open>
  Claim C2, amended: for every leaf condition whose field is present in the metadata,
  \<open>equals\<close> compares the metadata value and the rule value by Python's \<open>==\<close> with no
  coercion to text (a string equals only the same string), and \<open>contains\<close>,
  \<open>starts_with\<close>, \<open>ends_with\<close> and \<open>regex\<close> test the rule's value, when it is a
  string, against the text form of the field's value: as a substring, a prefix, a
  suffix, and as a pattern searched by the regular-expression engine, whose answer is
  the leaf's, with false for \<open>re.error\<close>.
\<close>

theorem leaf_operators:
  assumes "c_logic c = None" and "c_field c = Some (PStr f)" and "md f = Some file_value"
  shows
   "(c_operator c = Some (PStr ''equals'') \<longrightarrow>
       evaluate_condition re c md = Inr (py_eq file_value (dict_get (c_value c)))) \<and>
    (c_operator c = Some (PStr ''equals'') \<and> c_value c = Some (PStr v) \<longrightarrow>
       evaluate_condition re c md = Inr (file_value = PStr v)) \<and>
    (c_operator c = Some (PStr ''contains'') \<and> c_value c = Some (PStr v) \<longrightarrow>
       evaluate_condition re c md = Inr (\<exists>pre post. py_str file_value = pre @ v @ post)) \<and>
    (c_operator c = Some (PStr ''starts_with'') \<and> c_value c = Some (PStr v) \<longrightarrow>
       evaluate_condition re c md = Inr (\<exists>post. py_str file_value = v @ post)) \<and>
    (c_operator c = Some (PStr ''ends_with'') \<and> c_value c = Some (PStr v) \<longrightarrow>
       evaluate_condition re c md = Inr (\<exists>pre. py_str file_value = pre @ v)) \<and>
    (c_operator c = Some (PStr ''regex'') \<and> c_value c = Some (PStr v) \<longrightarrow>
       evaluate_condition re c md =
         (case re v (py_str file_value) of
            Matched b \<Rightarrow> Inr b
          | Re_error \<Rightarrow> Inr False
          | Re_OverflowError \<Rightarrow> Inl OverflowError
          | Re_RecursionError \<Rightarrow> Inl RecursionError))"
  using assms
  by (auto simp: evaluate_leaf_def dict_get_def startswith_iff [symmetric]
                 endswith_iff [symmetric] str_contains_iff [symmetric]
           split: option.splits)

theorem leaf_operators_witness:
  "c_logic (Cond None None (Some (PStr ''n'')) (Some (PStr ''contains'')) (Some (PStr ''02''))) = None \<and>
   evaluate_condition (regex_search example_platform)
     (Cond None None (Some (PStr ''n'')) (Some (PStr ''contains'')) (Some (PStr ''02'')))
     [''n'' \<mapsto> PInt 2024] = Inr True \<and>
   evaluate_condition (regex_search example_platform)
     (Cond None None (Some (PStr ''n'')) (Some (PStr ''equals'')) (Some (PInt 1)))
     [''n'' \<mapsto> PBool True] = Inr True"
  using leaf_operators
    [of "Cond None None (Some (PStr ''n'')) (Some (PStr ''contains'')) (Some (PStr ''02''))"
        "''n''" "[''n'' \<mapsto> PInt 2024]" "PInt 2024" "regex_search example_platform" "''02''"]
    leaf_operators
    [of "Cond None None (Some (PStr ''n'')) (Some (PStr ''equals'')) (Some (PInt 1))"
        "''n''" "[''n'' \<mapsto> PBool True]" "PBool True" "regex_search example_platform" "''''"]
  by (simp add: example_simps str_int_def str_nat.simps digit_char_def)

section \<open>Snippet expansion\<close>

text \<open>
  Claim C7. The source replaces, for each name found in the template and known to the
  table, every occurrence of the text \<open>$template.<name>\<close> in the current result. The
  evaluation below shows what that does where the claim says otherwise: with the table
  \<open>{a: X}\<close> the token \<open>$template.ab\<close>, whose name is unknown, becomes \<open>Xb\<close>; with
  the table \<open>{a: X, ab: Y}\<close> the token \<open>$template.ab\<close> behind a token
  \<open>$template.a\<close> becomes \<open>Xb\<close> and not the body \<open>Y\<close>; with the table \<open>{a: $template.b, b: B}\<close> the reference inside the body of \<open>a\<close> is
  expanded when the template also refers to \<open>b\<close>, and is not when it does not.
\<close>

theorem snippet_expansion_evaluated:
  "replace_placeholders posix_stem posix_suffix [''a'' \<mapsto> ''X'']
     ''$template.ab $template.a'' Map.empty ''f.pdf'' = ''Xb X'' \<and>
   replace_placeholders posix_stem posix_suffix [''a'' \<mapsto> ''X'', ''ab'' \<mapsto> ''Y'']
     ''$template.a $template.ab'' Map.empty ''f.pdf'' = ''X Xb'' \<and>
   replace_placeholders posix_stem posix_suffix [''a'' \<mapsto> ''$template.b'', ''b'' \<mapsto> ''B'']
     ''$template.a $template.b'' Map.empty ''f.pdf'' = ''B B'' \<and>
   replace_placeholders posix_stem posix_suffix [''a'' \<mapsto> ''$template.b'', ''b'' \<mapsto> ''B'']
     ''$template.a'' Map.empty ''f.pdf'' = ''$template.b''"
  by (simp add: replace_placeholders_def startswith_def is_word_char_def)

section \<open>Exactly one matching rule\<close>

text \<open>
  Claim C5, as stated: for every rules list and metadata record, zero satisfied rules
  give the no-match error and exactly one satisfied rule gives a location. It fails
  where the evaluation of a rule raises: with the one rule on the year no rule is
  satisfied, and with the dividends rule before it exactly one is, yet
  \<open>get_new_location\<close> raises \<open>TypeError\<close> in both cases.
\<close>

theorem get_new_location_raising_rule_counterexample:
  "path_exists example_platform ''/in/report.final.pdf'' \<and>
   filter (satisfied (regex_search example_platform)
             (file_metadata (path_basename example_platform ''/in/report.final.pdf'')
                report_metadata))
     [year_rule] = [] \<and>
   get_new_location example_platform (sorter_with [year_rule])
     ''/in/report.final.pdf'' report_metadata = Inl TypeError \<and>
   filter (satisfied (regex_search example_platform)
             (file_metadata (path_basename example_platform ''/in/report.final.pdf'')
                report_metadata))
     [dividends_rule, year_rule] = [dividends_rule] \<and>
   get_new_location example_platform (sorter_with [dividends_rule, year_rule])
     ''/in/report.final.pdf'' report_metadata = Inl TypeError"
  by (simp add: example_simps)

text \<open>
  Claim C5, amended: for an existing file and every rules list and metadata record on
  which the evaluation of every rule's conditions returns a boolean, the rule matcher
  returns the satisfied rules in configuration order; \<open>get_new_location\<close> fails with
  the no-match \<open>ValueError\<close> when there is none, fails with the multiple-match
  \<open>ValueError\<close> carrying the name of every matched rule in configuration order when
  there is more than one, and returns the location resolved from the rule's templates
  exactly when there is one.
\<close>

theorem get_new_location_exactly_one:
  assumes "path_exists os p"
    and "fmd = file_metadata (path_basename os p) md"
    and "rules = (case config_rules self of None \<Rightarrow> [] | Some rs \<Rightarrow> rs)"
    and "\<forall>r \<in> set rules. \<exists>b. evaluate_conditions (regex_search os) (rule_conditions r) fmd = Inr b"
    and "ms = filter (satisfied (regex_search os) fmd) rules"
  shows
   "find_all_matching_rules os self fmd = Inr ms \<and>
    (ms = [] \<longrightarrow>
       get_new_location os self p md = Inl (ValueError_NoMatch (path_basename os p))) \<and>
    (1 < length ms \<longrightarrow>
       get_new_location os self p md =
         Inl (ValueError_Multiple (path_basename os p) (map rule_name ms))) \<and>
    (\<forall>r. ms = [r] \<longrightarrow> get_new_location os self p md = Inr (resolved_location os self p md r)) \<and>
    ((\<exists>t. get_new_location os self p md = Inr t) \<longleftrightarrow> length ms = 1)"
proof -
  have found: "find_all_matching_rules os self (file_metadata (path_basename os p) md) = Inr ms"
    using assms(2-5) by (simp add: find_all_matching_rules_def matching_rules_of_Inr_iff)
  note cases = get_new_location_cases [OF assms(1) found]
  have "(\<exists>t. get_new_location os self p md = Inr t) \<longleftrightarrow> length ms = 1"
    unfolding cases
    by (cases ms) (simp_all del: split_paired_Ex split: list.splits)
  moreover have "1 < length ms \<longrightarrow> get_new_location os self p md =
         Inl (ValueError_Multiple (path_basename os p) (map rule_name ms))"
    unfolding cases
    by (cases ms) (auto split: list.splits)
  ultimately show ?thesis
    using cases found assms(2) by auto
qed

theorem get_new_location_exactly_one_witness:
  "path_exists example_platform ''/in/report.final.pdf'' \<and>
   find_all_matching_rules example_platform (sorter_with [dividends_rule, fallback_rule])
     (file_metadata (path_basename example_platform ''/in/report.final.pdf'') apple_metadata)
     = Inr [dividends_rule, fallback_rule] \<and>
   get_new_location example_platform (sorter_with [dividends_rule, fallback_rule])
     ''/in/report.final.pdf'' apple_metadata
     = Inl (ValueError_Multiple ''report.final.pdf'' [''Dividends'', ''Unnamed'']) \<and>
   get_new_location example_platform (sorter_with [dividends_rule, letters_rule])
     ''/in/report.final.pdf'' apple_metadata
     = Inr (''/out/Income/Apple'', ''Apple.pdf'', ''Dividends'') \<and>
   get_new_location example_platform (sorter_with [letters_rule])
     ''/in/report.final.pdf'' apple_metadata
     = Inl (ValueError_NoMatch ''report.final.pdf'')"
  using get_new_location_exactly_one
    [of example_platform "''/in/report.final.pdf''"
        "file_metadata (path_basename example_platform ''/in/report.final.pdf'') apple_metadata"
        apple_metadata "[dividends_rule, fallback_rule]"
        "sorter_with [dividends_rule, fallback_rule]" "[dividends_rule, fallback_rule]"]
    get_new_location_exactly_one
    [of example_platform "''/in/report.final.pdf''"
        "file_metadata (path_basename example_platform ''/in/report.final.pdf'') apple_metadata"
        apple_metadata "[dividends_rule, letters_rule]"
        "sorter_with [dividends_rule, letters_rule]" "[dividends_rule]"]
    get_new_location_exactly_one
    [of example_platform "''/in/report.final.pdf''"
        "file_metadata (path_basename example_platform ''/in/report.final.pdf'') apple_metadata"
        apple_metadata "[letters_rule]"
        "sorter_with [letters_rule]" "[]"]
  by (simp add: example_simps)

section \<open>Independence of the rule order\<close>



section \<open>Fallback chains\<close>



end
